theory Spec2Isabelle
  imports Complex_Main
begin

text \<open>
  The Brahma Muhurat calculator: the validators of \<open>utils/geo.js\<close>, the date parser of
  \<open>utils/time.js\<close>, the refraction formulas of \<open>core/refraction.js\<close>, the sunrise
  strategies of \<open>core/astronomical.js\<close>, the window of \<open>core/muhurat.js\<close> and the batch
  entry of \<open>index.js\<close>, as functions of higher-order logic, followed by what holds of
  them.
\<close>

section \<open>JavaScript values\<close>

text \<open>
  The library is JavaScript. Its numbers are IEEE doubles; they are idealised here as the
  reals extended by \<open>NaN\<close> and the two infinities, so the rounding inside a formula is
  outside the model (and so is the sign of zero). The one place where that rounding
  decides a result is the sum that becomes the time value of a \<open>Date\<close>, which is cut to a
  whole millisecond: there the sum is rounded to the nearest double (\<open>double_round\<close>)
  before it is cut. A \<open>Date\<close> is its time value: an integral number of milliseconds since
  the epoch, or \<open>NaN\<close> for an Invalid Date; the range limit of time values (8.64e15 ms
  either side of the epoch) is not modelled.
\<close>

datatype jsnum = Fin real | NaN | PosInf | NegInf

datatype jsdate = Instant int | InvalidDate

datatype jsval =
    JUndefined
  | JNull
  | JBoolean bool
  | JNumber jsnum
  | JString string
  | JDate jsdate
  | JMoment jsdate
  | JArray "jsval list"
  | JObject "(string \<times> jsval) list"

datatype js_error = Error string | TypeError string | RangeError string

fun error_message :: "js_error \<Rightarrow> string" where
  "error_message (Error m) = m"
| "error_message (TypeError m) = m"
| "error_message (RangeError m) = m"

fun error_name :: "js_error \<Rightarrow> string" where
  "error_name (Error m) = ''Error''"
| "error_name (TypeError m) = ''TypeError''"
| "error_name (RangeError m) = ''RangeError''"

definition throws_with_name :: "js_error + 'a \<Rightarrow> string \<Rightarrow> bool" where
  "throws_with_name r n = (case r of Inl e \<Rightarrow> error_name e = n | Inr v \<Rightarrow> False)"

fun js_typeof :: "jsval \<Rightarrow> string" where
  "js_typeof JUndefined = ''undefined''"
| "js_typeof (JBoolean b) = ''boolean''"
| "js_typeof (JNumber n) = ''number''"
| "js_typeof (JString s) = ''string''"
| "js_typeof v = ''object''"

text \<open>ToNumber, for the values the embedded code applies it to (numbers and \<open>undefined\<close>);
  parsing a string as a number is not modelled.\<close>

fun to_number :: "jsval \<Rightarrow> jsnum" where
  "to_number (JNumber n) = n"
| "to_number JNull = Fin 0"
| "to_number (JBoolean b) = Fin (if b then 1 else 0)"
| "to_number v = NaN"

fun js_lt :: "jsnum \<Rightarrow> jsnum \<Rightarrow> bool" where
  "js_lt NaN y = False"
| "js_lt x NaN = False"
| "js_lt (Fin a) (Fin b) = (a < b)"
| "js_lt (Fin a) PosInf = True"
| "js_lt NegInf (Fin b) = True"
| "js_lt NegInf PosInf = True"
| "js_lt x y = False"

definition js_gt :: "jsnum \<Rightarrow> jsnum \<Rightarrow> bool" where
  "js_gt x y = js_lt y x"

fun js_isNaN :: "jsnum \<Rightarrow> bool" where
  "js_isNaN NaN = True"
| "js_isNaN x = False"

fun js_truthy :: "jsval \<Rightarrow> bool" where
  "js_truthy JUndefined = False"
| "js_truthy JNull = False"
| "js_truthy (JBoolean b) = b"
| "js_truthy (JNumber (Fin x)) = (x \<noteq> 0)"
| "js_truthy (JNumber NaN) = False"
| "js_truthy (JString s) = (s \<noteq> [])"
| "js_truthy v = True"

fun js_neg :: "jsnum \<Rightarrow> jsnum" where
  "js_neg (Fin a) = Fin (- a)"
| "js_neg NaN = NaN"
| "js_neg PosInf = NegInf"
| "js_neg NegInf = PosInf"

fun js_add :: "jsnum \<Rightarrow> jsnum \<Rightarrow> jsnum" where
  "js_add NaN y = NaN"
| "js_add x NaN = NaN"
| "js_add (Fin a) (Fin b) = Fin (a + b)"
| "js_add PosInf NegInf = NaN"
| "js_add NegInf PosInf = NaN"
| "js_add (Fin a) y = y"
| "js_add x y = x"

definition js_sub :: "jsnum \<Rightarrow> jsnum \<Rightarrow> jsnum" where
  "js_sub x y = js_add x (js_neg y)"

fun js_sign_inf :: "bool \<Rightarrow> jsnum" where
  "js_sign_inf positive = (if positive then PosInf else NegInf)"

fun js_div :: "jsnum \<Rightarrow> jsnum \<Rightarrow> jsnum" where
  "js_div NaN y = NaN"
| "js_div x NaN = NaN"
| "js_div (Fin a) (Fin b) =
     (if b = 0 then (if a = 0 then NaN else js_sign_inf (0 < a)) else Fin (a / b))"
| "js_div (Fin a) y = Fin 0"
| "js_div PosInf (Fin b) = js_sign_inf (0 \<le> b)"
| "js_div NegInf (Fin b) = js_sign_inf (b < 0)"
| "js_div x y = NaN"

definition js_trunc :: "real \<Rightarrow> int" where
  "js_trunc x = (if 0 \<le> x then \<lfloor>x\<rfloor> else \<lceil>x\<rceil>)"

text \<open>
  The double nearest to a real, ties to the even significand: 53 bits of significand,
  with the spacing of the subnormal numbers below \<open>2 powr - 1022\<close>. (Overflow to an
  infinity is left out: no sum of a time value and a double reaches it.)
\<close>

definition round_half_even :: "real \<Rightarrow> int" where
  "round_half_even y =
     (let f = \<lfloor>y\<rfloor>; d = y - of_int f
      in if d < 1 / 2 then f else if 1 / 2 < d then f + 1 else if even f then f else f + 1)"

definition double_round :: "real \<Rightarrow> real" where
  "double_round x =
     (if x = 0 then 0
      else
        let e = max \<lfloor>log 2 \<bar>x\<bar>\<rfloor> (- 1022);
            ulp = 2 powr (of_int e - 52)
        in ulp * of_int (round_half_even (x / ulp)))"

fun js_rem :: "jsnum \<Rightarrow> jsnum \<Rightarrow> jsnum" where
  "js_rem (Fin a) (Fin b) = (if b = 0 then NaN else Fin (a - b * of_int (js_trunc (a / b))))"
| "js_rem (Fin a) PosInf = Fin a"
| "js_rem (Fin a) NegInf = Fin a"
| "js_rem x y = NaN"

fun Math_floor :: "jsnum \<Rightarrow> jsnum" where
  "Math_floor (Fin a) = Fin (of_int \<lfloor>a\<rfloor>)"
| "Math_floor x = x"

fun Math_round :: "jsnum \<Rightarrow> jsnum" where
  "Math_round (Fin a) = Fin (of_int \<lfloor>a + 1 / 2\<rfloor>)"
| "Math_round x = x"

text \<open>Property access on an object literal: a key the object does not have reads as
  \<open>undefined\<close>.\<close>

definition js_get :: "(string \<times> jsval) list \<Rightarrow> string \<Rightarrow> jsval" where
  "js_get obj key = (case map_of obj key of None \<Rightarrow> JUndefined | Some v \<Rightarrow> v)"

text \<open>\<open>try { body } catch (e) { handler }\<close> on results.\<close>

definition js_try :: "js_error + 'a \<Rightarrow> (js_error \<Rightarrow> js_error + 'a) \<Rightarrow> js_error + 'a" where
  "js_try body handler = (case body of Inl e \<Rightarrow> handler e | Inr v \<Rightarrow> Inr v)"

section \<open>The libraries the code calls\<close>

text \<open>
  The third-party libraries (moment-timezone, SunCalc, astronomy-engine) and the
  conversions of the language are parameters of the embedding. The calls that the code
  guards with \<open>try\<close> may throw; \<open>SunCalc.getTimes\<close> and the moment constructors return a
  value for every argument (an Invalid Date where they have no answer).
\<close>

record sun_times =
  st_sunrise :: jsdate
  st_sunset :: jsdate
  st_dawn :: jsdate
  st_dusk :: jsdate
  st_nauticalDawn :: jsdate
  st_nauticalDusk :: jsdate
  st_nightEnd :: jsdate
  st_night :: jsdate

record solar_position =
  sp_azimuth :: real
  sp_elevation :: real
  sp_rightAscension :: "real option"
  sp_declination :: "real option"

record externals =
  tz_zone :: "string \<Rightarrow> bool"
    \<comment> \<open>\<open>moment.tz.zone(name)\<close> is not null\<close>
  moment_parse :: "jsval \<Rightarrow> jsdate"
    \<comment> \<open>\<open>moment(input)\<close>: its instant, Invalid when \<open>isValid()\<close> is false\<close>
  moment_strict :: "string \<Rightarrow> string \<Rightarrow> jsdate"
    \<comment> \<open>\<open>moment(input, format, true)\<close>\<close>
  moment_tz :: "jsval \<Rightarrow> string \<Rightarrow> jsdate"
    \<comment> \<open>\<open>moment.tz(date, timezone).toDate()\<close>\<close>
  suncalc_getTimes :: "jsdate \<Rightarrow> real \<Rightarrow> real \<Rightarrow> sun_times"
  suncalc_getPosition :: "jsdate \<Rightarrow> real \<Rightarrow> real \<Rightarrow> real \<times> real"
    \<comment> \<open>azimuth and altitude, in radians\<close>
  astronomy_searchRise :: "real \<Rightarrow> real \<Rightarrow> real \<Rightarrow> jsdate \<Rightarrow> js_error + jsdate"
    \<comment> \<open>\<open>Observer\<close>, \<open>MakeTime\<close>, \<open>SearchRiseSet\<close> and the read of \<open>.date\<close>\<close>
  astronomy_position :: "real \<Rightarrow> real \<Rightarrow> jsdate \<Rightarrow> js_error + solar_position"
    \<comment> \<open>\<open>Observer\<close>, \<open>MakeTime\<close>, \<open>Equator\<close> and \<open>Horizon\<close>\<close>
  local_year_start :: "int \<Rightarrow> int"
    \<comment> \<open>time value of \<open>new Date(date.getFullYear(), 0, 0)\<close> for a valid date\<close>
  js_toString :: "jsval \<Rightarrow> string"
    \<comment> \<open>the string a template literal interpolates\<close>

text \<open>
  moment's \<open>add\<close> and \<open>subtract\<close> turn the amount into milliseconds and, when that is
  not zero, set the time value of a valid date to the sum, a double;
  \<open>Date.prototype.setTime\<close> cuts the fraction of a millisecond off. An invalid moment
  stays invalid. An amount that is \<open>NaN\<close> is read as zero.
\<close>

definition moment_add_ms :: "real \<Rightarrow> jsdate \<Rightarrow> jsdate" where
  "moment_add_ms ms d =
     (case d of
        InvalidDate \<Rightarrow> InvalidDate
      | Instant t \<Rightarrow>
          if ms = 0 then Instant t
          else Instant (js_trunc (double_round (real_of_int t + ms))))"

fun moment_add_minutes :: "jsnum \<Rightarrow> jsdate \<Rightarrow> jsdate" where
  "moment_add_minutes (Fin amount) d = moment_add_ms (amount * 60000) d"
| "moment_add_minutes NaN d = d"
| "moment_add_minutes amount d = InvalidDate"

definition moment_subtract_seconds :: "real \<Rightarrow> jsdate \<Rightarrow> jsdate" where
  "moment_subtract_seconds amount d = moment_add_ms (- (amount * 1000)) d"

fun moment_subtract_minutes :: "jsnum \<Rightarrow> jsdate \<Rightarrow> jsdate" where
  "moment_subtract_minutes (Fin amount) d = moment_add_ms (- (amount * 60000)) d"
| "moment_subtract_minutes NaN d = d"
| "moment_subtract_minutes amount d = InvalidDate"

text \<open>
  \<open>a.diff(b, 'minutes')\<close>: the difference in minutes, truncated towards zero. (The
  quotient of a whole number of milliseconds by 60000 is either a whole number or at
  least 1/60000 away from one, so rounding it to a double does not change what is cut.)
\<close>

fun moment_diff_minutes :: "jsdate \<Rightarrow> jsdate \<Rightarrow> jsnum" where
  "moment_diff_minutes (Instant a) (Instant b) =
     Fin (of_int (js_trunc (real_of_int (a - b) / 60000)))"
| "moment_diff_minutes a b = NaN"

section \<open>utils/geo.js\<close>

text \<open>
  The validators throw \<open>new Error(...)\<close> and return nothing. A condition \<open>a || b\<close> is
  read from the left, as two tests that lead to the same \<open>throw\<close>.
\<close>

definition validateCoordinates :: "jsval \<Rightarrow> jsval \<Rightarrow> js_error + unit" where
  "validateCoordinates latitude longitude =
     (if js_typeof latitude \<noteq> ''number'' then
        Inl (Error ''Latitude and longitude must be numbers'')
      else if js_typeof longitude \<noteq> ''number'' then
        Inl (Error ''Latitude and longitude must be numbers'')
      else if js_lt (to_number latitude) (Fin (- 90)) then
        Inl (Error ''Latitude must be between -90 and 90 degrees'')
      else if js_gt (to_number latitude) (Fin 90) then
        Inl (Error ''Latitude must be between -90 and 90 degrees'')
      else if js_lt (to_number longitude) (Fin (- 180)) then
        Inl (Error ''Longitude must be between -180 and 180 degrees'')
      else if js_gt (to_number longitude) (Fin 180) then
        Inl (Error ''Longitude must be between -180 and 180 degrees'')
      else if js_isNaN (to_number latitude) then
        Inl (Error ''Latitude and longitude must be valid numbers'')
      else if js_isNaN (to_number longitude) then
        Inl (Error ''Latitude and longitude must be valid numbers'')
      else Inr ())"

text \<open>The string and the number that a validated timezone and coordinate hold.\<close>

fun string_value :: "jsval \<Rightarrow> string" where
  "string_value (JString s) = s"
| "string_value v = []"

fun number_value :: "jsval \<Rightarrow> real" where
  "number_value (JNumber (Fin x)) = x"
| "number_value v = 0"

definition validateTimezone :: "externals \<Rightarrow> jsval \<Rightarrow> js_error + unit" where
  "validateTimezone ext timezone =
     (if \<not> js_truthy timezone then Inl (Error ''Timezone must be a non-empty string'')
      else if js_typeof timezone \<noteq> ''string'' then
        Inl (Error ''Timezone must be a non-empty string'')
      else if \<not> tz_zone ext (string_value timezone) then
        Inl (Error (''Invalid timezone: '' @ string_value timezone))
      else Inr ())"

definition validateElevation :: "jsval \<Rightarrow> js_error + unit" where
  "validateElevation elevation =
     (if js_typeof elevation \<noteq> ''number'' then Inl (Error ''Elevation must be a number'')
      else if js_lt (to_number elevation) (Fin (- 500)) then
        Inl (Error ''Elevation must be between -500 and 9000 meters'')
      else if js_gt (to_number elevation) (Fin 9000) then
        Inl (Error ''Elevation must be between -500 and 9000 meters'')
      else if js_isNaN (to_number elevation) then
        Inl (Error ''Elevation must be a valid number'')
      else Inr ())"

section \<open>utils/time.js\<close>

fun first_valid_format :: "externals \<Rightarrow> string \<Rightarrow> string list \<Rightarrow> jsdate option" where
  "first_valid_format ext input [] = None"
| "first_valid_format ext input (format # formats) =
     (case moment_strict ext input format of
        Instant t \<Rightarrow> Some (Instant t)
      | InvalidDate \<Rightarrow> first_valid_format ext input formats)"

definition parseDateInput :: "externals \<Rightarrow> jsval \<Rightarrow> js_error + jsdate" where
  "parseDateInput ext input =
     (case input of
        JDate d \<Rightarrow> Inr d
      | JMoment d \<Rightarrow> Inr d
      | JString s \<Rightarrow>
          (case first_valid_format ext s
                  [''YYYY-MM-DD'', ''YYYY-MM-DD HH:mm:ss'', ''DD/MM/YYYY'', ''MM/DD/YYYY'',
                   ''DD-MM-YYYY'', ''YYYY/MM/DD''] of
             Some d \<Rightarrow> Inr d
           | None \<Rightarrow>
               (case moment_parse ext input of
                  Instant t \<Rightarrow> Inr (Instant t)
                | InvalidDate \<Rightarrow> Inl (Error (''Invalid date format: '' @ js_toString ext input))))
      | _ \<Rightarrow> Inl (Error (''Invalid date format: '' @ js_toString ext input)))"

section \<open>core/refraction.js\<close>

definition saturatedVaporPressure :: "real \<Rightarrow> real" where
  "saturatedVaporPressure temperature =
     6.1078 * exp ((17.27 * temperature) / (temperature + 237.3))"

definition calculateRefractiveIndex :: "real \<Rightarrow> real \<Rightarrow> real \<Rightarrow> real" where
  "calculateRefractiveIndex pressure temperature humidity =
     (let T = temperature + 273.15;
          nDry = 1 + (pressure / T) * (287.6155 + 1.62887 / T + 0.01360 / (T * T)) * (1 / 1000000);
          waterVaporPressure = humidity * saturatedVaporPressure temperature;
          nWater = 1 + (waterVaporPressure / T) * (1792.0 - 67.2 / T) * (1 / 1000000)
      in nDry + nWater - 1)"

text \<open>
  The methods of \<open>RefractionCalculator\<close>; the first argument is \<open>this.model\<close>. Below
  \<open>-2\<close> degrees each formula hands over to \<open>_extrapolateRefraction\<close>, which calls
  \<open>calculateRefraction(0)\<close> with the default conditions, so the five functions are
  mutually recursive.
\<close>

function calculateRefraction :: "string \<Rightarrow> real \<Rightarrow> real \<Rightarrow> real \<Rightarrow> real \<Rightarrow> real"
  and bennettRefraction :: "string \<Rightarrow> real \<Rightarrow> real \<Rightarrow> real \<Rightarrow> real"
  and saemundssonRefraction :: "string \<Rightarrow> real \<Rightarrow> real \<Rightarrow> real \<Rightarrow> real"
  and rigorousRefraction :: "string \<Rightarrow> real \<Rightarrow> real \<Rightarrow> real \<Rightarrow> real \<Rightarrow> real"
  and extrapolateRefraction :: "string \<Rightarrow> real \<Rightarrow> real"
where
  "calculateRefraction model apparentAltitude pressure temperature humidity =
     (if model = ''rigorous'' then
        rigorousRefraction model apparentAltitude pressure temperature humidity
      else if model = ''saemundsson'' then
        saemundssonRefraction model apparentAltitude pressure temperature
      else bennettRefraction model apparentAltitude pressure temperature)"
| "bennettRefraction model altitude pressure temperature =
     (if altitude < - 2 then extrapolateRefraction model altitude
      else
        let h = max altitude 0.01;
            cotangent = 1 / tan ((h + 7.31 / (h + 4.4)) * pi / 180);
            standardRefraction = cotangent;
            pressureCorrection = pressure / 1013.25;
            temperatureCorrection = 283.15 / (273.15 + temperature)
        in standardRefraction * pressureCorrection * temperatureCorrection)"
| "saemundssonRefraction model altitude pressure temperature =
     (if altitude < - 2 then extrapolateRefraction model altitude
      else
        let h = max altitude 0.01;
            refraction = 1.02 / tan ((h + 10.3 / (h + 5.11)) * pi / 180);
            pressureCorrection = pressure / 1013.25;
            temperatureCorrection = 283.15 / (273.15 + temperature)
        in refraction * pressureCorrection * temperatureCorrection)"
| "rigorousRefraction model altitude pressure temperature humidity =
     (if altitude < - 2 then extrapolateRefraction model altitude
      else
        let h = max altitude 0.01;
            n = calculateRefractiveIndex pressure temperature humidity;
            beta = (h + 90) * pi / 180;
            refraction = (n - 1) * tan (pi / 2 - beta) * 180 / pi * 60
        in max refraction 0)"
| "extrapolateRefraction model altitude =
     (let horizonRefraction = calculateRefraction model 0 1013.25 15 0.5;
          gradient = horizonRefraction / 34
      in horizonRefraction + altitude * gradient)"
  by pat_completeness auto
termination
  by (relation "measure (\<lambda>x. case x of
        Inl (Inl (m, a, p, t, h)) \<Rightarrow> if a < - 2 then 5 else 2
      | Inl (Inr (m, a, p, t)) \<Rightarrow> if a < - 2 then 4 else 1
      | Inr (Inl (m, a, p, t)) \<Rightarrow> if a < - 2 then 4 else 1
      | Inr (Inr (Inl (m, a, p, t, h))) \<Rightarrow> if a < - 2 then 4 else (1::nat)
      | Inr (Inr (Inr (m, a))) \<Rightarrow> 3)") auto

definition calculateSunriseRefraction :: "string \<Rightarrow> real \<Rightarrow> real \<Rightarrow> real \<Rightarrow> real" where
  "calculateSunriseRefraction model pressure temperature humidity =
     (let geometricDepression = - 0.833
      in calculateRefraction model geometricDepression pressure temperature humidity)"

definition refractionToTimeCorrection :: "real \<Rightarrow> real \<Rightarrow> real \<Rightarrow> real" where
  "refractionToTimeCorrection refractionArcmin latitude declination =
     (let refractionDeg = refractionArcmin / 60;
          hourAngleRate = 360 / (24 * 3600);
          lat = latitude * pi / 180;
          dec = declination * pi / 180;
          correctionFactor = cos dec * cos lat
      in (refractionDeg / hourAngleRate) * correctionFactor)"

definition getDayOfYear :: "externals \<Rightarrow> int \<Rightarrow> int" where
  "getDayOfYear ext t =
     (let start = local_year_start ext t;
          diff = t - start
      in diff div (1000 * 60 * 60 * 24))"

definition calculateSolarDeclination :: "externals \<Rightarrow> int \<Rightarrow> real" where
  "calculateSolarDeclination ext t =
     (let dayOfYear = real_of_int (getDayOfYear ext t)
      in 23.45 * sin ((360 * (284 + dayOfYear) / 365) * pi / 180))"

text \<open>On an Invalid Date every number below is \<open>NaN\<close>, and so is the new time value.\<close>

definition applySunriseCorrection ::
  "externals \<Rightarrow> string \<Rightarrow> jsdate \<Rightarrow> real \<Rightarrow> real \<Rightarrow> real \<Rightarrow> real \<Rightarrow> real \<Rightarrow> jsdate" where
  "applySunriseCorrection ext model sunriseTime latitude longitude pressure temperature humidity =
     (case sunriseTime of
        InvalidDate \<Rightarrow> InvalidDate
      | Instant t \<Rightarrow>
          let declination = calculateSolarDeclination ext t;
              refraction = calculateSunriseRefraction model pressure temperature humidity;
              timeCorrection = refractionToTimeCorrection refraction latitude declination
          in Instant (js_trunc (double_round (real_of_int t - timeCorrection * 1000))))"

section \<open>core/astronomical.js\<close>

text \<open>\<open>Math.sqrt\<close> of a negative number is \<open>NaN\<close>, and so is what is computed from it.\<close>

definition calculateElevationCorrection :: "real \<Rightarrow> jsnum" where
  "calculateElevationCorrection elevation =
     (if elevation < 0 then NaN else Fin (- 1.76 * sqrt elevation / 60))"

definition calculateBasicRefraction :: "real \<Rightarrow> real" where
  "calculateBasicRefraction latitude =
     (let standardRefraction = 34;
          latitudeCorrection = cos (latitude * pi / 180)
      in (standardRefraction * latitudeCorrection * 4) / 60)"

definition calculateAtmosphericRefraction :: "real \<Rightarrow> real \<Rightarrow> real \<Rightarrow> real" where
  "calculateAtmosphericRefraction pressure temperature latitude =
     (let standardPressure = 1013.25;
          standardTemperature = 15;
          pressureFactor = pressure / standardPressure;
          tempFactor = (273.15 + standardTemperature) / (273.15 + temperature);
          baseRefraction = calculateBasicRefraction latitude
      in baseRefraction * pressureFactor * tempFactor)"

definition calculateBasicSunrise :: "externals \<Rightarrow> real \<Rightarrow> real \<Rightarrow> jsdate \<Rightarrow> jsdate" where
  "calculateBasicSunrise ext latitude longitude dateObj =
     (let times = suncalc_getTimes ext dateObj latitude longitude in st_sunrise times)"

definition calculateHighPrecisionSunrise ::
  "externals \<Rightarrow> real \<Rightarrow> real \<Rightarrow> real \<Rightarrow> jsdate \<Rightarrow> jsdate" where
  "calculateHighPrecisionSunrise ext latitude longitude elevation dateObj =
     (let times = suncalc_getTimes ext dateObj latitude longitude;
          sunriseMoment = st_sunrise times;
          elevated =
            (if elevation > 0 then
               let elevationCorrection = calculateElevationCorrection elevation
               in moment_add_minutes elevationCorrection sunriseMoment
             else sunriseMoment);
          basicRefraction = calculateBasicRefraction latitude
      in moment_subtract_seconds basicRefraction elevated)"

definition calculateMaximumPrecisionSunrise ::
  "externals \<Rightarrow> real \<Rightarrow> real \<Rightarrow> real \<Rightarrow> jsdate \<Rightarrow> real \<Rightarrow> real \<Rightarrow> js_error + jsdate" where
  "calculateMaximumPrecisionSunrise ext latitude longitude elevation dateObj pressure temperature =
     js_try
       (case astronomy_searchRise ext latitude longitude elevation dateObj of
          Inl e \<Rightarrow> Inl e
        | Inr riseDate \<Rightarrow>
            let refraction = calculateAtmosphericRefraction pressure temperature latitude
            in Inr (moment_subtract_seconds refraction riseDate))
       (\<lambda>caught. Inr (calculateHighPrecisionSunrise ext latitude longitude elevation dateObj))"

text \<open>\<open>calculateSunrise\<close> of \<open>AstronomicalCalculator\<close>; the second argument is
  \<open>this.precision\<close>.\<close>

definition calculateSunrise ::
  "externals \<Rightarrow> string \<Rightarrow> real \<Rightarrow> real \<Rightarrow> real \<Rightarrow> jsval \<Rightarrow> string \<Rightarrow> real \<Rightarrow> real
     \<Rightarrow> js_error + jsdate" where
  "calculateSunrise ext precision latitude longitude elevation date timezone pressure temperature =
     (let dateObj = moment_tz ext date timezone
      in if precision = ''maximum'' then
           calculateMaximumPrecisionSunrise ext latitude longitude elevation dateObj
             pressure temperature
         else if precision = ''high'' then
           Inr (calculateHighPrecisionSunrise ext latitude longitude elevation dateObj)
         else Inr (calculateBasicSunrise ext latitude longitude dateObj))"

definition calculateSolarPosition ::
  "externals \<Rightarrow> real \<Rightarrow> real \<Rightarrow> jsval \<Rightarrow> string \<Rightarrow> js_error + solar_position" where
  "calculateSolarPosition ext latitude longitude date timezone =
     (let dateObj = moment_tz ext date timezone
      in js_try (astronomy_position ext latitude longitude dateObj)
           (\<lambda>caught.
              let position = suncalc_getPosition ext dateObj latitude longitude
              in Inr \<lparr>sp_azimuth = fst position * 180 / pi,
                      sp_elevation = snd position * 180 / pi,
                      sp_rightAscension = None,
                      sp_declination = None\<rparr>))"

record twilight_times =
  tw_astronomicalDawn :: jsdate
  tw_nauticalDawn :: jsdate
  tw_civilDawn :: jsdate
  tw_sunrise :: jsdate
  tw_sunset :: jsdate
  tw_civilDusk :: jsdate
  tw_nauticalDusk :: jsdate
  tw_astronomicalDusk :: jsdate

definition getTwilightTimes ::
  "externals \<Rightarrow> real \<Rightarrow> real \<Rightarrow> jsval \<Rightarrow> string \<Rightarrow> twilight_times" where
  "getTwilightTimes ext latitude longitude date timezone =
     (let dateObj = moment_tz ext date timezone;
          times = suncalc_getTimes ext dateObj latitude longitude
      in \<lparr>tw_astronomicalDawn = st_nightEnd times,
          tw_nauticalDawn = st_nauticalDawn times,
          tw_civilDawn = st_dawn times,
          tw_sunrise = st_sunrise times,
          tw_sunset = st_sunset times,
          tw_civilDusk = st_dusk times,
          tw_nauticalDusk = st_nauticalDusk times,
          tw_astronomicalDusk = st_night times\<rparr>)"

definition formatDuration :: "externals \<Rightarrow> jsnum \<Rightarrow> string" where
  "formatDuration ext minutes =
     (let hours = Math_floor (js_div minutes (Fin 60));
          mins = js_rem minutes (Fin 60)
      in js_toString ext (JNumber hours) @ ''h '' @ js_toString ext (JNumber mins) @ ''m'')"

text \<open>The object \<open>calculateDayLength\<close> returns, with the four keys of the source.\<close>

definition calculateDayLength ::
  "externals \<Rightarrow> real \<Rightarrow> real \<Rightarrow> jsval \<Rightarrow> string \<Rightarrow> (string \<times> jsval) list" where
  "calculateDayLength ext latitude longitude date timezone =
     (let times = getTwilightTimes ext latitude longitude date timezone;
          dayLength = moment_diff_minutes (tw_sunset times) (tw_sunrise times);
          nightLength = js_sub (Fin 1440) dayLength
      in [(''dayLength'', JNumber dayLength),
          (''nightLength'', JNumber nightLength),
          (''dayLengthFormatted'', JString (formatDuration ext dayLength)),
          (''nightLengthFormatted'', JString (formatDuration ext nightLength))])"

section \<open>core/muhurat.js\<close>

record options =
  o_precision :: "string option"
  o_traditionType :: "string option"
  o_refractionModel :: "string option"

record config =
  c_precision :: string
  c_traditionType :: string
  c_refractionModel :: string

text \<open>\<open>options.x || d\<close>: the default stands in for a missing or empty string.\<close>

definition or_default :: "string option \<Rightarrow> string \<Rightarrow> string" where
  "or_default v d = (case v of None \<Rightarrow> d | Some s \<Rightarrow> if s = [] then d else s)"

definition MuhuratCalculator :: "options \<Rightarrow> config" where
  "MuhuratCalculator opts =
     \<lparr>c_precision = or_default (o_precision opts) ''high'',
      c_traditionType = or_default (o_traditionType opts) ''standard'',
      c_refractionModel = or_default (o_refractionModel opts) ''bennett''\<rparr>"

record params =
  p_latitude :: jsval
  p_longitude :: jsval
  p_elevation :: "real option"
  p_date :: jsval
  p_timezone :: jsval
  p_pressure :: "real option"
  p_temperature :: "real option"
  p_humidity :: "real option"

definition param_default :: "real option \<Rightarrow> real \<Rightarrow> real" where
  "param_default v d = (case v of None \<Rightarrow> d | Some x \<Rightarrow> x)"

definition validateInputs :: "externals \<Rightarrow> params \<Rightarrow> js_error + unit" where
  "validateInputs ext ps =
     (case validateCoordinates (p_latitude ps) (p_longitude ps) of
        Inl e \<Rightarrow> Inl e
      | Inr u \<Rightarrow>
          (case validateTimezone ext (p_timezone ps) of
             Inl e \<Rightarrow> Inl e
           | Inr u \<Rightarrow>
               (case moment_parse ext (p_date ps) of
                  InvalidDate \<Rightarrow>
                    Inl (Error ''Invalid date format. Use YYYY-MM-DD or valid date string'')
                | Instant t \<Rightarrow> Inr ())))"

definition calculatePreciseSunrise ::
  "externals \<Rightarrow> config \<Rightarrow> real \<Rightarrow> real \<Rightarrow> real \<Rightarrow> jsval \<Rightarrow> string \<Rightarrow> real \<Rightarrow> real \<Rightarrow> real
     \<Rightarrow> js_error + jsdate" where
  "calculatePreciseSunrise ext cfg latitude longitude elevation date timezone
       pressure temperature humidity =
     (case calculateSunrise ext (c_precision cfg) latitude longitude elevation date timezone
             pressure temperature of
        Inl e \<Rightarrow> Inl e
      | Inr baseSunrise \<Rightarrow>
          if c_precision cfg = ''maximum'' then
            Inr (applySunriseCorrection ext (c_refractionModel cfg) baseSunrise latitude
                   longitude pressure temperature humidity)
          else Inr baseSunrise)"

record muhurat_times =
  mt_start :: jsdate
  mt_end :: jsdate
  mt_durationMinutes :: jsnum

definition calculateMuhuratTimes ::
  "externals \<Rightarrow> config \<Rightarrow> jsdate \<Rightarrow> real \<Rightarrow> real \<Rightarrow> jsval \<Rightarrow> string \<Rightarrow> muhurat_times" where
  "calculateMuhuratTimes ext cfg sunriseDate latitude longitude date timezone =
     (let sunriseMoment = sunriseDate
      in if c_traditionType cfg = ''extended'' then
           \<lparr>mt_start = moment_subtract_minutes (Fin 120) sunriseMoment,
            mt_end = sunriseDate,
            mt_durationMinutes = Fin 120\<rparr>
         else if c_traditionType cfg = ''smarta'' then
           \<lparr>mt_start = moment_subtract_minutes (Fin 96) sunriseMoment,
            mt_end = sunriseDate,
            mt_durationMinutes = Fin 96\<rparr>
         else if c_traditionType cfg = ''dynamic'' then
           let dayLength = calculateDayLength ext latitude longitude date timezone;
               muhuratDuration =
                 Math_round (js_div (to_number (js_get dayLength ''totalMinutes'')) (Fin 15))
           in \<lparr>mt_start = moment_subtract_minutes muhuratDuration sunriseMoment,
               mt_end = sunriseDate,
               mt_durationMinutes = muhuratDuration\<rparr>
         else
           \<lparr>mt_start = moment_subtract_minutes (Fin 96) sunriseMoment,
            mt_end = sunriseDate,
            mt_durationMinutes = Fin 96\<rparr>)"

record astronomical_data =
  ad_twilight :: twilight_times
  ad_dayMinutes :: jsval
  ad_nightMinutes :: jsval
  ad_dayFormatted :: jsval
  ad_nightFormatted :: jsval
  ad_solarPosition :: solar_position

definition getAstronomicalData ::
  "externals \<Rightarrow> real \<Rightarrow> real \<Rightarrow> jsval \<Rightarrow> string \<Rightarrow> js_error + astronomical_data" where
  "getAstronomicalData ext latitude longitude date timezone =
     (let twilightTimes = getTwilightTimes ext latitude longitude date timezone;
          dayLength = calculateDayLength ext latitude longitude date timezone
      in case calculateSolarPosition ext latitude longitude date timezone of
           Inl e \<Rightarrow> Inl e
         | Inr solarPosition \<Rightarrow>
             Inr \<lparr>ad_twilight = twilightTimes,
                  ad_dayMinutes = js_get dayLength ''dayLength'',
                  ad_nightMinutes = js_get dayLength ''nightLength'',
                  ad_dayFormatted = js_get dayLength ''dayLengthFormatted'',
                  ad_nightFormatted = js_get dayLength ''nightLengthFormatted'',
                  ad_solarPosition = solarPosition\<rparr>)"

text \<open>
  The result of \<open>calculate\<close>. The strings formatted by moment, the spiritual metrics
  derived from the window and the time stamp of the call are left out of the record.
\<close>

record calc_result =
  r_latitude :: real
  r_longitude :: real
  r_elevation :: real
  r_timezone :: string
  r_date :: jsdate
  r_sunrise :: jsdate
  r_muhuratStart :: jsdate
  r_muhuratEnd :: jsdate
  r_durationMinutes :: jsnum
  r_traditionType :: string
  r_astronomicalData :: astronomical_data
  r_precision :: string
  r_refractionModel :: string
  r_pressure :: real
  r_temperature :: real
  r_humidity :: real

definition calculate :: "externals \<Rightarrow> config \<Rightarrow> params \<Rightarrow> js_error + calc_result" where
  "calculate ext cfg ps =
     (let latitude = number_value (p_latitude ps);
          longitude = number_value (p_longitude ps);
          elevation = param_default (p_elevation ps) 0;
          date = p_date ps;
          timezone = string_value (p_timezone ps);
          pressure = param_default (p_pressure ps) 1013.25;
          temperature = param_default (p_temperature ps) 15;
          humidity = param_default (p_humidity ps) 0.5
      in case validateInputs ext ps of
           Inl e \<Rightarrow> Inl e
         | Inr u \<Rightarrow>
        (case calculatePreciseSunrise ext cfg latitude longitude elevation date timezone
                pressure temperature humidity of
           Inl e \<Rightarrow> Inl e
         | Inr sunriseDate \<Rightarrow>
        (let muhuratTimes =
               calculateMuhuratTimes ext cfg sunriseDate latitude longitude date timezone
         in case getAstronomicalData ext latitude longitude date timezone of
              Inl e \<Rightarrow> Inl e
            | Inr astronomicalData \<Rightarrow>
           (case parseDateInput ext date of
              Inl e \<Rightarrow> Inl e
            | Inr parsedDate \<Rightarrow>
                Inr \<lparr>r_latitude = latitude,
                     r_longitude = longitude,
                     r_elevation = elevation,
                     r_timezone = timezone,
                     r_date = parsedDate,
                     r_sunrise = sunriseDate,
                     r_muhuratStart = mt_start muhuratTimes,
                     r_muhuratEnd = mt_end muhuratTimes,
                     r_durationMinutes = mt_durationMinutes muhuratTimes,
                     r_traditionType = c_traditionType cfg,
                     r_astronomicalData = astronomicalData,
                     r_precision = c_precision cfg,
                     r_refractionModel = c_refractionModel cfg,
                     r_pressure = pressure,
                     r_temperature = temperature,
                     r_humidity = humidity\<rparr>))))"

text \<open>An element of a batch: a full result, or \<open>{date, error: error.message}\<close>.\<close>

datatype batch_item = ItemResult calc_result | ItemError jsval string

definition MuhuratCalculator_calculateBatch ::
  "externals \<Rightarrow> config \<Rightarrow> params \<Rightarrow> jsval list \<Rightarrow> batch_item list" where
  "MuhuratCalculator_calculateBatch ext cfg ps dates =
     map (\<lambda>date.
            case calculate ext cfg (ps\<lparr>p_date := date\<rparr>) of
              Inr r \<Rightarrow> ItemResult r
            | Inl e \<Rightarrow> ItemError date (error_message e))
         dates"

section \<open>index.js\<close>

definition calculateBatch ::
  "externals \<Rightarrow> config \<Rightarrow> params \<Rightarrow> jsval \<Rightarrow> js_error + batch_item list" where
  "calculateBatch ext cfg baseParams dates =
     (case dates of
        JArray ds \<Rightarrow> Inr (MuhuratCalculator_calculateBatch ext cfg baseParams ds)
      | _ \<Rightarrow> Inl (Error ''Dates must be an array''))"

section \<open>A sample environment\<close>

text \<open>
  One concrete choice of the library parameters, used to run the model on sample inputs:
  two date strings parse (to midnight UTC of 2024-02-18 and of 2024-02-20), the only zone
  is UTC, the sun rises 6 h 10 min and sets 18 h 15 min after the date's instant, and the
  astronomy engine throws, as it does when it finds no rise event.
\<close>

definition sample_parse :: "jsval \<Rightarrow> jsdate" where
  "sample_parse v =
     (case v of
        JDate d \<Rightarrow> d
      | JMoment d \<Rightarrow> d
      | JString s \<Rightarrow>
          (if s = ''2024-02-18'' then Instant 1708214400000
           else if s = ''2024-02-20'' then Instant 1708387200000
           else InvalidDate)
      | _ \<Rightarrow> InvalidDate)"

definition sample_times :: "jsdate \<Rightarrow> sun_times" where
  "sample_times d =
     (case d of
        InvalidDate \<Rightarrow>
          \<lparr>st_sunrise = InvalidDate, st_sunset = InvalidDate, st_dawn = InvalidDate,
           st_dusk = InvalidDate, st_nauticalDawn = InvalidDate, st_nauticalDusk = InvalidDate,
           st_nightEnd = InvalidDate, st_night = InvalidDate\<rparr>
      | Instant t \<Rightarrow>
          \<lparr>st_sunrise = Instant (t + 22200000), st_sunset = Instant (t + 65700000),
           st_dawn = Instant (t + 20880000), st_dusk = Instant (t + 67020000),
           st_nauticalDawn = Instant (t + 19320000), st_nauticalDusk = Instant (t + 68580000),
           st_nightEnd = Instant (t + 17760000), st_night = Instant (t + 70140000)\<rparr>)"

definition sample_ext :: externals where
  "sample_ext =
     \<lparr>tz_zone = (\<lambda>z. z = ''UTC''),
      moment_parse = sample_parse,
      moment_strict = (\<lambda>s f. if f = ''YYYY-MM-DD'' then sample_parse (JString s) else InvalidDate),
      moment_tz = (\<lambda>v z. sample_parse v),
      suncalc_getTimes = (\<lambda>d la lo. sample_times d),
      suncalc_getPosition = (\<lambda>d la lo. (0, 0)),
      astronomy_searchRise = (\<lambda>la lo el d. Inl (TypeError ''Cannot read properties of null'')),
      astronomy_position = (\<lambda>la lo d. Inl (Error ''Invalid time'')),
      local_year_start = (\<lambda>t. 1703980800000),
      js_toString = (\<lambda>v. case v of JString s \<Rightarrow> s | _ \<Rightarrow> ''[object]'')\<rparr>"

definition sample_params :: params where
  "sample_params =
     \<lparr>p_latitude = JNumber (Fin 0), p_longitude = JNumber (Fin 0), p_elevation = None,
      p_date = JString ''2024-02-18'', p_timezone = JString ''UTC'',
      p_pressure = None, p_temperature = None, p_humidity = None\<rparr>"

definition sample_config :: "string \<Rightarrow> config" where
  "sample_config tradition =
     MuhuratCalculator
       \<lparr>o_precision = None, o_traditionType = Some tradition, o_refractionModel = None\<rparr>"

section \<open>Properties\<close>

subsection \<open>Running \<open>calculate\<close>\<close>

text \<open>
  Only the validation and \<open>parseDateInput\<close> can make \<open>calculate\<close> throw: the two
  calls into the astronomy engine sit in \<open>try\<close> blocks whose handlers fall back to SunCalc.
\<close>

lemma sample_config_fields:
  "c_precision (sample_config tradition) = ''high''"
  "c_refractionModel (sample_config tradition) = ''bennett''"
  "c_traditionType (sample_config ''standard'') = ''standard''"
  "c_traditionType (sample_config ''dynamic'') = ''dynamic''"
  by (simp_all add: sample_config_def MuhuratCalculator_def or_default_def)

lemma round_half_even_of_int: "round_half_even (of_int m) = m"
  by (simp add: round_half_even_def)

lemma floor_log2_binade:
  assumes "2 ^ k \<le> x" and "x < 2 ^ Suc k"
  shows "\<lfloor>log 2 x\<rfloor> = int k"
proof -
  have "(0::real) < 2 ^ k" by simp
  then have pos: "0 < x" using assms(1) by linarith
  have "log 2 (2 ^ k) \<le> log 2 x" using assms(1) pos by (subst log_le_cancel_iff) auto
  then have lo: "real k \<le> log 2 x" by (simp add: log_nat_power)
  have "log 2 x < log 2 (2 ^ Suc k)" using assms(2) pos by (subst log_less_cancel_iff) auto
  then have hi: "log 2 x < real (Suc k)" by (simp only: log_nat_power) simp
  show ?thesis
  proof (rule floor_unique)
    show "of_int (int k) \<le> log 2 x" using lo by simp
    show "log 2 x < of_int (int k) + 1" using hi by simp
  qed
qed


lemma double_round_binade:
  assumes "2 ^ k \<le> \<bar>x\<bar>" and "\<bar>x\<bar> < 2 ^ Suc k" and "k \<le> 52"
  shows "double_round x = of_int (round_half_even (x * 2 ^ (52 - k))) / 2 ^ (52 - k)"
proof -
  have "(0::real) < 2 ^ k" by simp
  then have "0 < \<bar>x\<bar>" using assms(1) by linarith
  then have nz: "x \<noteq> 0" by simp
  have e: "\<lfloor>log 2 \<bar>x\<bar>\<rfloor> = int k" using assms(1,2) by (rule floor_log2_binade)
  have m: "max (int k) (- 1022) = int k" by simp
  have "real_of_int (int k) - 52 = - real (52 - k)" using assms(3) by simp
  then have "2 powr (real_of_int (int k) - 52) = 2 powr (- real (52 - k))" by (simp only:)
  also have "\<dots> = 1 / 2 ^ (52 - k)" by (simp add: powr_minus powr_realpow divide_inverse)
  finally have u: "2 powr (real_of_int (int k) - 52) = 1 / 2 ^ (52 - k)" .
  have "double_round x =
      2 powr (real_of_int (int k) - 52) *
        of_int (round_half_even (x / 2 powr (real_of_int (int k) - 52)))"
    using nz by (simp only: double_round_def e m Let_def if_False)
  then show ?thesis by (simp only: u) simp
qed

lemma double_round_of_int:
  assumes "\<bar>n\<bar> < 2 ^ 53"
  shows "double_round (of_int n) = of_int n"
proof (cases "n = 0")
  case True
  then show ?thesis by (simp add: double_round_def)
next
  case False
  define a where "a = \<bar>real_of_int n\<bar>"
  define k where "k = nat \<lfloor>log 2 a\<rfloor>"
  have "1 \<le> \<bar>n\<bar>" using False by simp
  then have "real_of_int 1 \<le> real_of_int \<bar>n\<bar>" by (simp only: of_int_le_iff)
  then have one: "1 \<le> a" by (simp add: a_def)
  have "real_of_int \<bar>n\<bar> < real_of_int (2 ^ 53)" using assms by (simp only: of_int_less_iff)
  then have lt: "a < 2 ^ 53" by (simp add: a_def)
  have l0: "0 \<le> log 2 a" using one by simp
  then have kf: "real k = real_of_int \<lfloor>log 2 a\<rfloor>" by (simp add: k_def)
  have pw: "2 powr (log 2 a) = a" using one by simp
  have klo: "real k \<le> log 2 a" using kf by simp
  have khi: "log 2 a < real k + 1" using kf by linarith
  have "log 2 a < log 2 (2 ^ 53)" using lt one by (subst log_less_cancel_iff) auto
  moreover have "log 2 ((2::real) ^ 53) = 53" by (subst log_nat_power) simp_all
  ultimately have "log 2 a < 53" by (simp only:)
  then have "real k < 53" using klo by linarith
  then have k52: "k \<le> 52" by simp
  have "2 powr (real k) \<le> 2 powr (log 2 a)" using klo by simp
  then have lo: "2 ^ k \<le> a" using pw by (simp add: powr_realpow)
  have "2 powr (log 2 a) < 2 powr (real k + 1)" using khi by simp
  then have "a < 2 powr (real (Suc k))" using pw by (simp add: add.commute)
  moreover have "(2::real) powr (real (Suc k)) = 2 ^ Suc k" by (rule powr_realpow) simp
  ultimately have hi: "a < 2 ^ Suc k" by (simp only:)
  have "real_of_int n * 2 ^ (52 - k) = real_of_int (n * 2 ^ (52 - k))" by simp
  then have r: "round_half_even (real_of_int n * 2 ^ (52 - k)) = n * 2 ^ (52 - k)"
    by (simp only: round_half_even_of_int)
  have "double_round (of_int n) =
      of_int (round_half_even (real_of_int n * 2 ^ (52 - k))) / 2 ^ (52 - k)"
    using lo hi k52 unfolding a_def by (rule double_round_binade)
  then show ?thesis by (simp add: r)
qed

lemma js_trunc_of_int [simp]: "js_trunc (real_of_int k) = k"
  by (simp add: js_trunc_def)

lemma moment_add_ms_whole:
  assumes "\<bar>t + m\<bar> < 2 ^ 53"
  shows "moment_add_ms (real_of_int m) (Instant t) = Instant (t + m)"
proof -
  have "real_of_int t + real_of_int m = real_of_int (t + m)" by simp
  then have "double_round (real_of_int t + real_of_int m) = real_of_int (t + m)"
    using double_round_of_int [OF assms] by (simp only:)
  then have "js_trunc (double_round (real_of_int t + real_of_int m)) = t + m"
    by (simp only: js_trunc_of_int)
  then show ?thesis by (auto simp add: moment_add_ms_def)
qed

lemma moment_subtract_whole_minutes:
  assumes "\<bar>t - n * 60000\<bar> < 2 ^ 53"
  shows "moment_subtract_minutes (Fin (real_of_int n)) (Instant t) = Instant (t - n * 60000)"
proof -
  have "- (real_of_int n * 60000) = real_of_int (- (n * 60000))" by simp
  moreover have "\<bar>t + - (n * 60000)\<bar> < 2 ^ 53" using assms by simp
  ultimately show ?thesis
    using moment_add_ms_whole [of t "- (n * 60000)"] by simp
qed

lemma calculateSunrise_returns:
  "\<exists>d. calculateSunrise ext precision la lo el date tz p t = Inr d"
  by (simp add: calculateSunrise_def calculateMaximumPrecisionSunrise_def js_try_def Let_def
      split: sum.splits)

lemma calculatePreciseSunrise_returns:
  "\<exists>d. calculatePreciseSunrise ext cfg la lo el date tz p t h = Inr d"
proof -
  obtain d where "calculateSunrise ext (c_precision cfg) la lo el date tz p t = Inr d"
    using calculateSunrise_returns by blast
  then show ?thesis by (simp add: calculatePreciseSunrise_def)
qed

lemma calculateSolarPosition_returns:
  "\<exists>sp. calculateSolarPosition ext la lo date tz = Inr sp"
  by (simp add: calculateSolarPosition_def js_try_def Let_def split: sum.splits)

lemma getAstronomicalData_returns:
  "\<exists>ad. getAstronomicalData ext la lo date tz = Inr ad"
proof -
  obtain sp where "calculateSolarPosition ext la lo date tz = Inr sp"
    using calculateSolarPosition_returns by blast
  then show ?thesis by (simp add: getAstronomicalData_def Let_def)
qed

lemma calculate_returns:
  assumes "validateInputs ext ps = Inr ()" and "parseDateInput ext (p_date ps) = Inr pd"
  shows "\<exists>r sr ad.
           calculatePreciseSunrise ext cfg (number_value (p_latitude ps))
               (number_value (p_longitude ps)) (param_default (p_elevation ps) 0) (p_date ps)
               (string_value (p_timezone ps)) (param_default (p_pressure ps) 1013.25)
               (param_default (p_temperature ps) 15) (param_default (p_humidity ps) 0.5) = Inr sr
         \<and> calculate ext cfg ps = Inr r
         \<and> r_sunrise r = sr
         \<and> r_date r = pd
         \<and> r_muhuratStart r = mt_start (calculateMuhuratTimes ext cfg sr
               (number_value (p_latitude ps)) (number_value (p_longitude ps)) (p_date ps)
               (string_value (p_timezone ps)))
         \<and> r_muhuratEnd r = mt_end (calculateMuhuratTimes ext cfg sr
               (number_value (p_latitude ps)) (number_value (p_longitude ps)) (p_date ps)
               (string_value (p_timezone ps)))
         \<and> r_durationMinutes r = mt_durationMinutes (calculateMuhuratTimes ext cfg sr
               (number_value (p_latitude ps)) (number_value (p_longitude ps)) (p_date ps)
               (string_value (p_timezone ps)))"
proof -
  obtain sr where sr: "calculatePreciseSunrise ext cfg (number_value (p_latitude ps))
               (number_value (p_longitude ps)) (param_default (p_elevation ps) 0) (p_date ps)
               (string_value (p_timezone ps)) (param_default (p_pressure ps) 1013.25)
               (param_default (p_temperature ps) 15) (param_default (p_humidity ps) 0.5) = Inr sr"
    using calculatePreciseSunrise_returns by blast
  obtain ad where ad: "getAstronomicalData ext (number_value (p_latitude ps))
               (number_value (p_longitude ps)) (p_date ps) (string_value (p_timezone ps)) = Inr ad"
    using getAstronomicalData_returns by blast
  show ?thesis
    using assms sr ad by (simp add: calculate_def Let_def)
qed


subsection \<open>Coordinates\<close>

lemma validateCoordinates_accepts_iff:
  "(validateCoordinates la lo = Inr ()) =
     (\<exists>a b. la = JNumber (Fin a) \<and> lo = JNumber (Fin b)
        \<and> - 90 \<le> a \<and> a \<le> 90 \<and> - 180 \<le> b \<and> b \<le> 180)"
proof (cases la)
  case (JNumber x)
  note la = this
  show ?thesis
  proof (cases lo)
    case (JNumber y)
    show ?thesis
      unfolding la JNumber
      by (cases x; cases y) (auto simp add: validateCoordinates_def js_gt_def)
  qed (simp_all add: validateCoordinates_def la)
qed (simp_all add: validateCoordinates_def)

lemma validateCoordinates_throws_Error:
  "validateCoordinates la lo = Inl e \<Longrightarrow> error_name e = ''Error''"
  by (auto simp add: validateCoordinates_def split: if_splits)

text \<open>
  C4 (as amended). \<open>validateCoordinates\<close> returns normally exactly when both arguments
  are numbers, neither \<open>NaN\<close> nor infinite, with the latitude in \<open>[-90, 90]\<close> and the
  longitude in \<open>[-180, 180]\<close>. In every other case (an argument that is not a number, a
  \<open>NaN\<close>, a latitude or a longitude out of range) it throws, and what it throws is a
  plain \<open>Error\<close>: the module has no \<open>TypeError\<close> and no \<open>RangeError\<close>.
\<close>

theorem validateCoordinates_failure:
  "(validateCoordinates la lo = Inr ()) =
     (\<exists>a b. la = JNumber (Fin a) \<and> lo = JNumber (Fin b)
        \<and> - 90 \<le> a \<and> a \<le> 90 \<and> - 180 \<le> b \<and> b \<le> 180)
   \<and> (validateCoordinates la lo \<noteq> Inr () \<longrightarrow>
        throws_with_name (validateCoordinates la lo) ''Error'')"
proof -
  have "throws_with_name (validateCoordinates la lo) ''Error''"
    if "validateCoordinates la lo \<noteq> Inr ()"
  proof (cases "validateCoordinates la lo")
    case (Inl e)
    then show ?thesis
      using validateCoordinates_throws_Error [of la lo e] by (simp add: throws_with_name_def)
  next
    case (Inr u)
    with that show ?thesis by simp
  qed
  then show ?thesis using validateCoordinates_accepts_iff by blast
qed

text \<open>The four kinds of rejected input, each thrown as an \<open>Error\<close>.\<close>

theorem validateCoordinates_failure_witness:
  "throws_with_name (validateCoordinates (JNumber NaN) (JNumber (Fin 77))) ''Error''
   \<and> throws_with_name (validateCoordinates (JString ''invalid'') (JNumber (Fin 77))) ''Error''
   \<and> throws_with_name (validateCoordinates (JNumber (Fin 95)) (JNumber (Fin 77))) ''Error''
   \<and> throws_with_name (validateCoordinates (JNumber (Fin 25)) (JNumber (Fin 200))) ''Error''"
proof -
  have 1: "validateCoordinates (JNumber NaN) (JNumber (Fin 77)) \<noteq> Inr ()"
    by (simp add: validateCoordinates_def js_gt_def)
  have 2: "validateCoordinates (JString ''invalid'') (JNumber (Fin 77)) \<noteq> Inr ()"
    by (simp add: validateCoordinates_def js_gt_def)
  have 3: "validateCoordinates (JNumber (Fin 95)) (JNumber (Fin 77)) \<noteq> Inr ()"
    by (simp add: validateCoordinates_def js_gt_def)
  have 4: "validateCoordinates (JNumber (Fin 25)) (JNumber (Fin 200)) \<noteq> Inr ()"
    by (simp add: validateCoordinates_def js_gt_def)
  show ?thesis
    using 1 2 3 4
      validateCoordinates_failure [of "JNumber NaN" "JNumber (Fin 77)"]
      validateCoordinates_failure [of "JString ''invalid''" "JNumber (Fin 77)"]
      validateCoordinates_failure [of "JNumber (Fin 95)" "JNumber (Fin 77)"]
      validateCoordinates_failure [of "JNumber (Fin 25)" "JNumber (Fin 200)"]
    by blast
qed

text \<open>
  A string for the latitude and a \<open>NaN\<close> are not reported by a \<open>TypeError\<close>, and a
  latitude of 91 or a longitude of 181 is not reported by a \<open>RangeError\<close>.
\<close>

theorem validateCoordinates_error_class_counterexample:
  "\<not> throws_with_name (validateCoordinates (JString ''invalid'') (JNumber (Fin 77))) ''TypeError''
   \<and> \<not> throws_with_name (validateCoordinates (JNumber NaN) (JNumber (Fin 77))) ''TypeError''
   \<and> \<not> throws_with_name (validateCoordinates (JNumber (Fin 91)) (JNumber (Fin 77))) ''RangeError''
   \<and> \<not> throws_with_name (validateCoordinates (JNumber (Fin 25)) (JNumber (Fin 181))) ''RangeError''"
  by (simp add: validateCoordinates_def throws_with_name_def js_gt_def)

text \<open>
  C8. \<open>validateCoordinates\<close> accepts latitude 90 and -90 and longitude 180 and -180, and
  throws for latitude 91 and -91 and for longitude 181 and -181, whatever the other
  coordinate is; \<open>validateElevation\<close> accepts -500 and 9000 and throws for -501 and 9001.
\<close>

theorem validation_boundaries:
  "validateCoordinates (JNumber (Fin 90)) (JNumber (Fin 180)) = Inr ()
   \<and> validateCoordinates (JNumber (Fin (- 90))) (JNumber (Fin (- 180))) = Inr ()
   \<and> validateCoordinates (JNumber (Fin 91)) lo \<noteq> Inr ()
   \<and> validateCoordinates (JNumber (Fin (- 91))) lo \<noteq> Inr ()
   \<and> validateCoordinates la (JNumber (Fin 181)) \<noteq> Inr ()
   \<and> validateCoordinates la (JNumber (Fin (- 181))) \<noteq> Inr ()
   \<and> validateElevation (JNumber (Fin (- 500))) = Inr ()
   \<and> validateElevation (JNumber (Fin 9000)) = Inr ()
   \<and> validateElevation (JNumber (Fin (- 501))) \<noteq> Inr ()
   \<and> validateElevation (JNumber (Fin 9001)) \<noteq> Inr ()"
  by (simp add: validateCoordinates_accepts_iff validateElevation_def js_gt_def)


subsection \<open>Refraction\<close>

lemma tan_deg_pos:
  assumes "0 < d" "d < 90"
  shows "0 < tan (d * pi / 180)"
proof -
  have "0 < d * pi / 180" using assms by simp
  moreover have "pi * (d / 180) < pi * (1 / 2)"
    using assms by (intro mult_strict_left_mono) auto
  then have "d * pi / 180 < pi / 2" by (simp add: mult.commute)
  ultimately show ?thesis by (rule tan_gt_zero)
qed

lemma tan_deg_neg:
  assumes "90 < d" "d < 180"
  shows "tan (d * pi / 180) < 0"
proof -
  have eq: "tan (d * pi / 180) = tan (d * pi / 180 - pi)"
    using tan_periodic_pi [of "d * pi / 180 - pi"] by simp
  have "pi * (1 / 2) < pi * (d / 180)"
    using assms by (intro mult_strict_left_mono) auto
  then have lo: "pi / 2 < d * pi / 180" by (simp add: mult.commute)
  have "pi * (d / 180) < pi * 1"
    using assms by (intro mult_strict_left_mono) auto
  then have hi: "d * pi / 180 < pi" by (simp add: mult.commute)
  have "- (pi / 2) < d * pi / 180 - pi" using lo by linarith
  moreover have "d * pi / 180 - pi < 0" using hi by linarith
  ultimately have "tan (d * pi / 180 - pi) < 0"
    using tan_less_zero [of "d * pi / 180 - pi"] by simp
  with eq show ?thesis by simp
qed

lemma quad_lower:
  assumes "0.01 \<le> (h::real)" "h \<le> 89.89" "4 \<le> c"
  shows "0.11 * (89.89 + c) \<le> (90 - h) * (h + c)"
proof -
  have split: "(90 - h) * (h + c) = 0.11 * (89.89 + c) + (89.89 - h) * (h + c - 0.11)"
    by (simp add: field_simps)
  have "0 \<le> (89.89 - h) * (h + c - 0.11)"
    using assms by (intro mult_nonneg_nonneg) auto
  with split show ?thesis by linarith
qed

lemma refraction_angle:
  assumes "0.01 \<le> (h::real)" "h \<le> 89.89" "4 \<le> c" "0 < k" "k < 0.11 * (89.89 + c)"
  shows "0 < h + k / (h + c)" and "h + k / (h + c) < 90"
proof -
  have p: "0 < h + c" using assms by simp
  then have "0 < k / (h + c)" using assms by simp
  then show "0 < h + k / (h + c)" using assms by linarith
  have "k < (90 - h) * (h + c)" using quad_lower [OF assms(1-3)] assms(5) by linarith
  then have "k / (h + c) < 90 - h" using p by (simp add: pos_divide_less_eq)
  then show "h + k / (h + c) < 90" by linarith
qed

lemma bennett_nonneg:
  assumes "- 2 \<le> a" "a \<le> 89.89" "0 \<le> p" "- 273.15 < t"
  shows "0 \<le> bennettRefraction m a p t"
proof -
  define h where "h = max a (0.01::real)"
  have ng: "(a < - 2) = False" using assms by simp
  have hb: "0.01 \<le> h" "h \<le> 89.89" using assms by (auto simp: h_def)
  have "0 < tan ((h + 7.31 / (h + 4.4)) * pi / 180)"
    using refraction_angle [OF hb, of "4.4" "7.31"] by (intro tan_deg_pos) auto
  then have "0 \<le> 1 / tan ((h + 7.31 / (h + 4.4)) * pi / 180)" by simp
  moreover have "0 \<le> p / 1013.25" using assms by simp
  moreover have "0 \<le> 283.15 / (273.15 + t)" using assms by simp
  ultimately have "0 \<le> 1 / tan ((h + 7.31 / (h + 4.4)) * pi / 180) * (p / 1013.25) * (283.15 / (273.15 + t))"
    by (intro mult_nonneg_nonneg)
  moreover have "bennettRefraction m a p t =
      1 / tan ((h + 7.31 / (h + 4.4)) * pi / 180) * (p / 1013.25) * (283.15 / (273.15 + t))"
    using ng by (simp only: bennettRefraction.simps saemundssonRefraction.simps if_False Let_def h_def)
  ultimately show ?thesis by (simp only:)
qed

lemma saemundsson_nonneg:
  assumes "- 2 \<le> a" "a \<le> 89.89" "0 \<le> p" "- 273.15 < t"
  shows "0 \<le> saemundssonRefraction m a p t"
proof -
  define h where "h = max a (0.01::real)"
  have ng: "(a < - 2) = False" using assms by simp
  have hb: "0.01 \<le> h" "h \<le> 89.89" using assms by (auto simp: h_def)
  have "0 < tan ((h + 10.3 / (h + 5.11)) * pi / 180)"
    using refraction_angle [OF hb, of "5.11" "10.3"] by (intro tan_deg_pos) auto
  then have "0 \<le> 1.02 / tan ((h + 10.3 / (h + 5.11)) * pi / 180)" by simp
  moreover have "0 \<le> p / 1013.25" using assms by simp
  moreover have "0 \<le> 283.15 / (273.15 + t)" using assms by simp
  ultimately have "0 \<le> 1.02 / tan ((h + 10.3 / (h + 5.11)) * pi / 180) * (p / 1013.25) * (283.15 / (273.15 + t))"
    by (intro mult_nonneg_nonneg)
  moreover have "saemundssonRefraction m a p t =
      1.02 / tan ((h + 10.3 / (h + 5.11)) * pi / 180) * (p / 1013.25) * (283.15 / (273.15 + t))"
    using ng by (simp only: bennettRefraction.simps saemundssonRefraction.simps if_False Let_def h_def)
  ultimately show ?thesis by (simp only:)
qed

lemma rigorous_nonneg:
  assumes "- 2 \<le> a"
  shows "0 \<le> rigorousRefraction m a p t hum"
  using assms by (simp add: Let_def)


lemma tan_beyond_zenith:
  assumes "0 < k" "k < 90 * (90 + c)" "0 < c"
  shows "tan ((90 + k / (90 + c)) * pi / 180) < 0"
proof -
  have "0 < k / (90 + c)" using assms by simp
  moreover have "k / (90 + c) < 90" using assms by (simp add: pos_divide_less_eq)
  ultimately show ?thesis by (intro tan_deg_neg) auto
qed

lemma bennett_zenith_neg: "bennettRefraction m 90 1013.25 15 < 0"
proof -
  have "tan ((90 + 7.31 / (90 + 4.4)) * pi / 180) < 0"
    by (rule tan_beyond_zenith) auto
  then have "1 / tan ((90 + 7.31 / (90 + 4.4)) * pi / 180) < 0" by simp
  then have "1 / tan ((90 + 7.31 / (90 + 4.4)) * pi / 180) * (1013.25 / 1013.25)
               * (283.15 / (273.15 + 15)) < 0"
    by (simp add: mult_neg_pos)
  moreover have "bennettRefraction m 90 1013.25 15 =
      1 / tan ((90 + 7.31 / (90 + 4.4)) * pi / 180) * (1013.25 / 1013.25)
        * (283.15 / (273.15 + 15))"
    by (simp add: Let_def)
  ultimately show ?thesis by (simp only:)
qed

lemma saemundsson_zenith_neg: "saemundssonRefraction m 90 1013.25 15 < 0"
proof -
  have "tan ((90 + 10.3 / (90 + 5.11)) * pi / 180) < 0"
    by (rule tan_beyond_zenith) auto
  then have "1.02 / tan ((90 + 10.3 / (90 + 5.11)) * pi / 180) < 0"
    by (simp add: divide_pos_neg)
  then have "1.02 / tan ((90 + 10.3 / (90 + 5.11)) * pi / 180) * (1013.25 / 1013.25)
               * (283.15 / (273.15 + 15)) < 0"
    by (simp add: mult_neg_pos)
  moreover have "saemundssonRefraction m 90 1013.25 15 =
      1.02 / tan ((90 + 10.3 / (90 + 5.11)) * pi / 180) * (1013.25 / 1013.25)
        * (283.15 / (273.15 + 15))"
    by (simp add: Let_def)
  ultimately show ?thesis by (simp only:)
qed

text \<open>
  C3 (as amended). For a pressure in \<open>[500, 1100]\<close> and a temperature in \<open>[-50, 50]\<close>,
  \<open>calculateRefraction\<close> is not negative under the rigorous model at every altitude from
  -2 degrees up, and under the Bennett and Saemundsson formulas at every altitude from -2
  up to 89.89 degrees. (Closer to the zenith the angle handed to \<open>tan\<close> passes 90 degrees
  and both formulas turn negative.)
\<close>

theorem refraction_nonneg_below_zenith:
  assumes "- 2 \<le> altitude" and "model = ''rigorous'' \<or> altitude \<le> 89.89"
    and "500 \<le> pressure" and "pressure \<le> 1100"
    and "- 50 \<le> temperature" and "temperature \<le> 50"
  shows "0 \<le> calculateRefraction model altitude pressure temperature humidity"
proof (cases "model = ''rigorous''")
  case True
  then show ?thesis using rigorous_nonneg [OF assms(1)] by simp
next
  case False
  then have up: "altitude \<le> 89.89" using assms(2) by simp
  have p: "0 \<le> pressure" and t: "- 273.15 < temperature" using assms by simp_all
  show ?thesis
    using False bennett_nonneg [OF assms(1) up p t] saemundsson_nonneg [OF assms(1) up p t]
    by simp
qed

text \<open>At the horizon, at the lower edge of the range, and at the zenith for the rigorous
  model.\<close>

theorem refraction_nonneg_below_zenith_witness:
  "0 \<le> calculateRefraction ''bennett'' 0 1013.25 15 0.5
   \<and> 0 \<le> calculateRefraction ''saemundsson'' (- 2) 500 (- 50) 0
   \<and> 0 \<le> calculateRefraction ''rigorous'' 90 1100 50 1"
  using refraction_nonneg_below_zenith [of 0 "''bennett''" "1013.25" 15 "0.5"]
    refraction_nonneg_below_zenith [of "- 2" "''saemundsson''" 500 "- 50" 0]
    refraction_nonneg_below_zenith [of 90 "''rigorous''" 1100 50 1]
  by simp

text \<open>
  At an altitude of 90 degrees, under standard conditions, the Bennett formula evaluates
  the cotangent of about 90.08 degrees and the Saemundsson formula that of about 90.11
  degrees: both results are negative.
\<close>

theorem refraction_negative_at_zenith_counterexample:
  "calculateRefraction ''bennett'' 90 1013.25 15 0.5 < 0
   \<and> calculateRefraction ''saemundsson'' 90 1013.25 15 0.5 < 0"
  using bennett_zenith_neg [of "''bennett''"] saemundsson_zenith_neg [of "''saemundsson''"]
  by simp

lemma calculateRefraction_below:
  "altitude < - 2 \<Longrightarrow>
     calculateRefraction model altitude pressure temperature humidity =
       extrapolateRefraction model altitude"
  by simp

text \<open>
  C9. Below -2 degrees the result of \<open>calculateRefraction\<close> does not depend on the
  pressure, the temperature or the humidity: any two sets of conditions give the same
  value at the same altitude, since the extrapolation starts from the refraction at the
  horizon under the default conditions.
\<close>

theorem extrapolation_ignores_conditions:
  assumes "altitude < - 2"
  shows "calculateRefraction model altitude pressure temperature humidity =
           calculateRefraction model altitude pressure' temperature' humidity'"
  using assms by (simp only: calculateRefraction_below)

text \<open>Two altitudes below the horizon, each under two sets of conditions.\<close>

theorem extrapolation_ignores_conditions_witness:
  "calculateRefraction ''rigorous'' (- 5) 1013.25 15 0.5 =
     calculateRefraction ''rigorous'' (- 5) 700 (- 20) 0.9
   \<and> calculateRefraction ''bennett'' (- 3) 1100 40 0 =
     calculateRefraction ''bennett'' (- 3) 500 (- 50) 1"
  using extrapolation_ignores_conditions [of "- 5" "''rigorous''" "1013.25" 15 "0.5" 700 "- 20" "0.9"]
    extrapolation_ignores_conditions [of "- 3" "''bennett''" 1100 40 0 500 "- 50" 1]
  by simp

lemma clamped_refraction:
  assumes "- 2 \<le> altitude" and "altitude \<le> 0.01"
  shows "calculateRefraction model altitude pressure temperature humidity =
           calculateRefraction model 0.01 pressure temperature humidity"
proof -
  have m: "max altitude 0.01 = (0.01::real)" using assms by simp
  have ng: "(altitude < - 2) = False" using assms by simp
  show ?thesis
    by (simp only: calculateRefraction.simps bennettRefraction.simps
        saemundssonRefraction.simps rigorousRefraction.simps ng m if_False Let_def) simp
qed

text \<open>
  C10. Under the Bennett and Saemundsson formulas (every model but the rigorous one),
  \<open>calculateRefraction\<close> takes the same value at any two altitudes in \<open>[-2, 0.01]\<close> for the
  same conditions, and \<open>calculateSunriseRefraction\<close>, which evaluates it at -0.833 degrees,
  returns the refraction at 0.01 degrees: the value at any other depression angle of the
  interval.
\<close>

theorem refraction_constant_near_horizon:
  assumes "model \<noteq> ''rigorous''"
    and "- 2 \<le> a" and "a \<le> 0.01" and "- 2 \<le> b" and "b \<le> 0.01"
  shows "calculateRefraction model a pressure temperature humidity =
           calculateRefraction model b pressure temperature humidity
       \<and> calculateSunriseRefraction model pressure temperature humidity =
           calculateRefraction model 0.01 pressure temperature humidity
       \<and> calculateSunriseRefraction model pressure temperature humidity =
           calculateRefraction model a pressure temperature humidity"
proof -
  have a: "calculateRefraction model a pressure temperature humidity =
             calculateRefraction model 0.01 pressure temperature humidity"
    using assms by (intro clamped_refraction)
  have b: "calculateRefraction model b pressure temperature humidity =
             calculateRefraction model 0.01 pressure temperature humidity"
    using assms by (intro clamped_refraction)
  have s: "calculateSunriseRefraction model pressure temperature humidity =
             calculateRefraction model 0.01 pressure temperature humidity"
    unfolding calculateSunriseRefraction_def Let_def
    by (intro clamped_refraction) simp_all
  show ?thesis using a b s by simp
qed

text \<open>The edge of the interval against the horizon, and the sunrise variant.\<close>

theorem refraction_constant_near_horizon_witness:
  "calculateRefraction ''bennett'' (- 2) 1013.25 15 0.5 =
     calculateRefraction ''bennett'' 0 1013.25 15 0.5
   \<and> calculateSunriseRefraction ''saemundsson'' 1013.25 15 0.5 =
     calculateRefraction ''saemundsson'' 0.01 1013.25 15 0.5"
  using refraction_constant_near_horizon [of "''bennett''" "- 2" 0 "1013.25" 15 "0.5"]
    refraction_constant_near_horizon [of "''saemundsson''" 0 0 "1013.25" 15 "0.5"]
  by simp


subsection \<open>Sunrise\<close>

lemma sample_high_sunrise:
  "calculateHighPrecisionSunrise sample_ext 0 0 0 (Instant 1708214400000) =
     Instant 1708236597733"
proof -
  have "double_round (5124709793200 / 3) =
      of_int (round_half_even (5124709793200 / 3 * 2 ^ (52 - 40))) / 2 ^ (52 - 40)"
    by (rule double_round_binade) simp_all
  also have "\<dots> = 6996937104315733 / 4096"
    by (simp add: round_half_even_def)
  finally have r: "double_round (5124709793200 / 3) = 6996937104315733 / 4096" .
  have "moment_add_ms (- (6800 / 3)) (Instant 1708236600000) = Instant 1708236597733"
    by (simp add: moment_add_ms_def r js_trunc_def)
  then show ?thesis
    by (simp add: calculateHighPrecisionSunrise_def sample_ext_def sample_times_def
        calculateBasicRefraction_def moment_subtract_seconds_def Let_def)
qed

text \<open>
  C5. When the search of the astronomy engine throws at maximum precision,
  \<open>calculateSunrise\<close> does not pass the error on: it returns what the high-precision
  strategy returns for the same arguments. At every precision the call returns a date.
\<close>

theorem maximum_precision_falls_back:
  assumes "astronomy_searchRise ext latitude longitude elevation (moment_tz ext date timezone) = Inl e"
  shows "calculateSunrise ext ''maximum'' latitude longitude elevation date timezone
             pressure temperature =
           Inr (calculateHighPrecisionSunrise ext latitude longitude elevation
                  (moment_tz ext date timezone))
       \<and> calculateSunrise ext ''maximum'' latitude longitude elevation date timezone
             pressure temperature =
           calculateSunrise ext ''high'' latitude longitude elevation date timezone
             pressure temperature
       \<and> (\<exists>d. calculateSunrise ext precision latitude longitude elevation date timezone
                 pressure temperature = Inr d)"
  using assms calculateSunrise_returns [of ext precision latitude longitude elevation date
      timezone pressure temperature]
  by (simp add: calculateSunrise_def calculateMaximumPrecisionSunrise_def js_try_def Let_def)

text \<open>In the sample environment the engine throws a \<open>TypeError\<close>, and the call returns the
  sunrise of the high-precision strategy.\<close>

theorem maximum_precision_falls_back_witness:
  "calculateSunrise sample_ext ''maximum'' 0 0 0 (JString ''2024-02-18'') ''UTC'' 1013.25 15 =
     Inr (Instant 1708236597733)"
proof -
  have thrown: "astronomy_searchRise sample_ext 0 0 0
                  (moment_tz sample_ext (JString ''2024-02-18'') ''UTC'') =
                Inl (TypeError ''Cannot read properties of null'')"
    by (simp add: sample_ext_def)
  have d: "moment_tz sample_ext (JString ''2024-02-18'') ''UTC'' = Instant 1708214400000"
    by (simp add: sample_ext_def sample_parse_def)
  show ?thesis
    using maximum_precision_falls_back [OF thrown, of "1013.25" 15 "''maximum''"]
      sample_high_sunrise
    by (simp only: d)
qed

lemma sqrt_3600: "sqrt 3600 = 60"
  by (rule real_sqrt_unique) simp_all

lemma sample_elevated_sunrise:
  "moment_add_minutes (calculateElevationCorrection 3600) (Instant 1708236600000) =
     Instant 1708236494400"
proof -
  have "calculateElevationCorrection 3600 = Fin (real_of_int (- 176) / 100)"
    by (simp add: calculateElevationCorrection_def sqrt_3600)
  moreover have "real_of_int (- 176) / 100 * 60000 = real_of_int (- 105600)" by simp
  moreover have "moment_add_ms (real_of_int (- 105600)) (Instant 1708236600000) =
      Instant (1708236600000 + - 105600)"
    by (rule moment_add_ms_whole) simp
  ultimately show ?thesis by simp
qed

text \<open>
  C7. The claim, like the comment above \<open>_calculateElevationCorrection\<close>, gives the
  correction as \<open>- 1.76 * sqrt elevation\<close> minutes. The function divides that by 60 and
  the high-precision strategy adds the quotient to the sunrise as minutes (when the
  elevation is above zero), so the correction applied is a sixtieth of the one claimed:
  within the rounding of the arithmetic, between a 59th and a 61st of it.
\<close>

theorem elevation_correction_is_a_sixtieth:
  assumes "0 < elevation"
  shows "calculateHighPrecisionSunrise ext latitude longitude elevation dateObj =
           moment_subtract_seconds (calculateBasicRefraction latitude)
             (moment_add_minutes (calculateElevationCorrection elevation)
                (st_sunrise (suncalc_getTimes ext dateObj latitude longitude)))
       \<and> (\<exists>c. calculateElevationCorrection elevation = Fin c
              \<and> - 1.76 * sqrt elevation / 59 < c
              \<and> c < - 1.76 * sqrt elevation / 61
              \<and> c \<noteq> - 1.76 * sqrt elevation)"
proof -
  have s: "0 < sqrt elevation" using assms by simp
  define x where "x = 1.76 * sqrt elevation"
  have x: "0 < x" using s by (simp add: x_def)
  have c: "calculateElevationCorrection elevation = Fin (- x / 60)"
    using assms by (simp add: calculateElevationCorrection_def x_def)
  have "- x / 59 < - x / 60" and "- x / 60 < - x / 61" and "- x / 60 \<noteq> - x"
    using x by simp_all
  then have "\<exists>c. calculateElevationCorrection elevation = Fin c
              \<and> - x / 59 < c \<and> c < - x / 61 \<and> c \<noteq> - x"
    using c by blast
  then have b: "\<exists>c. calculateElevationCorrection elevation = Fin c
              \<and> - 1.76 * sqrt elevation / 59 < c
              \<and> c < - 1.76 * sqrt elevation / 61
              \<and> c \<noteq> - 1.76 * sqrt elevation"
    by (simp add: x_def)
  have "calculateHighPrecisionSunrise ext latitude longitude elevation dateObj =
           moment_subtract_seconds (calculateBasicRefraction latitude)
             (moment_add_minutes (calculateElevationCorrection elevation)
                (st_sunrise (suncalc_getTimes ext dateObj latitude longitude)))"
    using assms by (simp add: calculateHighPrecisionSunrise_def Let_def)
  then show ?thesis using b by blast
qed

text \<open>
  At 3600 m the claim gives 105.6 minutes. The correction computed lies between -1.79 and
  -1.73 minutes, and a sunrise at 06:10:00.000 moves to 06:08:14.400 before the
  refraction correction, where 105.6 minutes would move it to 04:24:24.
\<close>

theorem elevation_correction_is_a_sixtieth_witness:
  "(\<exists>c. calculateElevationCorrection 3600 = Fin c \<and> - 1.79 < c \<and> c < - 1.73)
   \<and> calculateHighPrecisionSunrise sample_ext 0 0 3600 (Instant 1708214400000) =
       moment_subtract_seconds (calculateBasicRefraction 0) (Instant 1708236494400)"
proof -
  have s: "st_sunrise (suncalc_getTimes sample_ext (Instant 1708214400000) 0 0) =
             Instant 1708236600000"
    by (simp add: sample_ext_def sample_times_def)
  have e: "(0::real) < 3600" by simp
  obtain c where c: "calculateElevationCorrection 3600 = Fin c"
      "- 1.76 * sqrt 3600 / 59 < c" "c < - 1.76 * sqrt 3600 / 61"
    and h: "calculateHighPrecisionSunrise sample_ext 0 0 3600 (Instant 1708214400000) =
           moment_subtract_seconds (calculateBasicRefraction 0)
             (moment_add_minutes (calculateElevationCorrection 3600)
                (st_sunrise (suncalc_getTimes sample_ext (Instant 1708214400000) 0 0)))"
    using elevation_correction_is_a_sixtieth [OF e, of sample_ext 0 0 "Instant 1708214400000"]
    by blast
  have "- 1.79 < c" and "c < - 1.73" using c(2,3) by (simp_all add: sqrt_3600)
  then have "\<exists>c. calculateElevationCorrection 3600 = Fin c \<and> - 1.79 < c \<and> c < - 1.73"
    using c(1) by blast
  moreover have "calculateHighPrecisionSunrise sample_ext 0 0 3600 (Instant 1708214400000) =
       moment_subtract_seconds (calculateBasicRefraction 0) (Instant 1708236494400)"
    using h by (simp only: s sample_elevated_sunrise)
  ultimately show ?thesis by blast
qed

subsection \<open>The muhurat window\<close>

lemma fixed_tradition_times:
  assumes "c_traditionType cfg \<noteq> ''dynamic''" and "\<bar>t\<bar> \<le> 8640000000000000"
  shows "calculateMuhuratTimes ext cfg (Instant t) la lo date tz =
           \<lparr>mt_start = Instant (t - (if c_traditionType cfg = ''extended'' then 120 else 96) * 60000),
            mt_end = Instant t,
            mt_durationMinutes = Fin (if c_traditionType cfg = ''extended'' then 120 else 96)\<rparr>"
proof -
  have "\<bar>t - 120 * 60000\<bar> < 2 ^ 53" and "\<bar>t - 96 * 60000\<bar> < 2 ^ 53"
    using assms(2) by simp_all
  then show ?thesis
    using assms(1) moment_subtract_whole_minutes [of t 120]
      moment_subtract_whole_minutes [of t 96]
    by (simp add: calculateMuhuratTimes_def Let_def)
qed

lemma fixed_tradition_window:
  assumes "validateInputs ext ps = Inr ()"
    and "parseDateInput ext (p_date ps) = Inr pd"
    and "c_traditionType cfg \<noteq> ''dynamic''"
    and "calculatePreciseSunrise ext cfg (number_value (p_latitude ps))
           (number_value (p_longitude ps)) (param_default (p_elevation ps) 0) (p_date ps)
           (string_value (p_timezone ps)) (param_default (p_pressure ps) 1013.25)
           (param_default (p_temperature ps) 15) (param_default (p_humidity ps) 0.5) =
         Inr (Instant t)"
    and "\<bar>t\<bar> \<le> 8640000000000000"
  shows "\<exists>r. calculate ext cfg ps = Inr r
           \<and> r_sunrise r = Instant t
           \<and> r_muhuratEnd r = Instant t
           \<and> r_muhuratStart r =
               Instant (t - (if c_traditionType cfg = ''extended'' then 120 else 96) * 60000)
           \<and> r_durationMinutes r =
               Fin (if c_traditionType cfg = ''extended'' then 120 else 96)"
  using calculate_returns [OF assms(1,2), of cfg] assms(4)
    fixed_tradition_times [OF assms(3) assms(5), of ext]
  by auto

lemma dayLength_has_no_totalMinutes:
  "js_get (calculateDayLength ext la lo date tz) ''totalMinutes'' = JUndefined"
  by (simp add: calculateDayLength_def js_get_def Let_def)

lemma dynamic_tradition_times:
  assumes "c_traditionType cfg = ''dynamic''"
  shows "calculateMuhuratTimes ext cfg sr la lo date tz =
           \<lparr>mt_start = sr, mt_end = sr, mt_durationMinutes = NaN\<rparr>"
  using assms by (simp add: calculateMuhuratTimes_def dayLength_has_no_totalMinutes Let_def)

lemma sample_validates:
  "validateInputs sample_ext sample_params = Inr ()"
  by (simp add: validateInputs_def sample_params_def sample_ext_def sample_parse_def
      validateCoordinates_def validateTimezone_def js_gt_def)

lemma sample_parses:
  "parseDateInput sample_ext (p_date sample_params) = Inr (Instant 1708214400000)"
  by (simp add: parseDateInput_def sample_params_def sample_ext_def sample_parse_def)

lemma sample_sunrise:
  "calculatePreciseSunrise sample_ext (sample_config tradition)
     (number_value (p_latitude sample_params)) (number_value (p_longitude sample_params))
     (param_default (p_elevation sample_params) 0) (p_date sample_params)
     (string_value (p_timezone sample_params)) (param_default (p_pressure sample_params) 1013.25)
     (param_default (p_temperature sample_params) 15)
     (param_default (p_humidity sample_params) 0.5) = Inr (Instant 1708236597733)"
proof -
  have d: "moment_tz sample_ext (JString ''2024-02-18'') ''UTC'' = Instant 1708214400000"
    by (simp add: sample_ext_def sample_parse_def)
  show ?thesis
    by (simp add: calculatePreciseSunrise_def calculateSunrise_def sample_config_fields
        sample_params_def param_default_def d sample_high_sunrise)
qed

lemma sample_night_length:
  "js_get (calculateDayLength sample_ext 0 0 (JString ''2024-02-18'') ''UTC'') ''nightLength'' =
     JNumber (Fin 715)"
  by (simp add: calculateDayLength_def getTwilightTimes_def js_get_def Let_def sample_ext_def
      sample_parse_def sample_times_def js_sub_def js_trunc_def)

text \<open>
  C1. The claim gives every valid input a window that ends at the resolved sunrise and
  starts \<open>durationMinutes\<close> minutes earlier. For every tradition but the dynamic one the
  code does so (\<open>fixed_tradition_window\<close>: 120 minutes for extended, 96 otherwise). Under
  the dynamic tradition it does not: \<open>calculate\<close> returns a window that ends at the
  sunrise and starts at that same instant, because the duration it subtracts is \<open>NaN\<close>.
\<close>

theorem dynamic_window_is_empty:
  assumes "validateInputs ext ps = Inr ()"
    and "parseDateInput ext (p_date ps) = Inr pd"
    and "c_traditionType cfg = ''dynamic''"
  shows "\<exists>r. calculate ext cfg ps = Inr r
           \<and> r_muhuratEnd r = r_sunrise r
           \<and> r_muhuratStart r = r_muhuratEnd r"
  using calculate_returns [OF assms(1,2), of cfg] dynamic_tradition_times [OF assms(3), of ext]
  by auto

text \<open>The sample input under the dynamic tradition: both ends of the window are the
  sunrise, 06:09:57.733.\<close>

theorem dynamic_window_is_empty_witness:
  "\<exists>r. calculate sample_ext (sample_config ''dynamic'') sample_params = Inr r
       \<and> r_muhuratEnd r = Instant 1708236597733
       \<and> r_muhuratStart r = Instant 1708236597733"
proof -
  obtain r where r: "calculate sample_ext (sample_config ''dynamic'') sample_params = Inr r"
      "r_muhuratEnd r = r_sunrise r" "r_muhuratStart r = r_muhuratEnd r"
    using dynamic_window_is_empty [OF sample_validates sample_parses,
        of "sample_config ''dynamic''"]
    by (auto simp add: sample_config_fields)
  obtain r' where r': "calculate sample_ext (sample_config ''dynamic'') sample_params = Inr r'"
      "r_sunrise r' = Instant 1708236597733"
    using calculate_returns [OF sample_validates sample_parses, of "sample_config ''dynamic''"]
      sample_sunrise [of "''dynamic''"]
    by auto
  from r r' have "r' = r" by simp
  with r r' show ?thesis by auto
qed

text \<open>
  C2. The claim gives the dynamic tradition a duration of the night length divided by 15,
  rounded. The code divides \<open>dayLength.totalMinutes\<close>, a key that the object returned
  by \<open>calculateDayLength\<close> does not have, so for every valid input \<open>calculate\<close> returns
  \<open>NaN\<close> as \<open>durationMinutes\<close>.
\<close>

theorem dynamic_duration_is_NaN:
  assumes "validateInputs ext ps = Inr ()"
    and "parseDateInput ext (p_date ps) = Inr pd"
    and "c_traditionType cfg = ''dynamic''"
  shows "\<exists>r. calculate ext cfg ps = Inr r \<and> r_durationMinutes r = NaN"
  using calculate_returns [OF assms(1,2), of cfg] dynamic_tradition_times [OF assms(3), of ext]
  by auto

text \<open>The sample input: the night is 715 minutes long, a fifteenth of it rounds to 48, and
  the duration returned is \<open>NaN\<close>.\<close>

theorem dynamic_duration_is_NaN_witness:
  "(\<exists>r. calculate sample_ext (sample_config ''dynamic'') sample_params = Inr r
         \<and> r_durationMinutes r = NaN)
   \<and> js_get (calculateDayLength sample_ext 0 0 (JString ''2024-02-18'') ''UTC'') ''nightLength'' =
       JNumber (Fin 715)
   \<and> Math_round (js_div (Fin 715) (Fin 15)) = Fin 48"
proof -
  have "\<exists>r. calculate sample_ext (sample_config ''dynamic'') sample_params = Inr r
         \<and> r_durationMinutes r = NaN"
    using dynamic_duration_is_NaN [OF sample_validates sample_parses,
        of "sample_config ''dynamic''"]
    by (simp add: sample_config_fields)
  moreover have "Math_round (js_div (Fin 715) (Fin 15)) = Fin 48"
    by simp
  ultimately show ?thesis using sample_night_length by blast
qed


subsection \<open>Batches\<close>

lemma sample_invalid_date_throws:
  "calculate sample_ext cfg (sample_params\<lparr>p_date := JString ''invalid-date''\<rparr>) =
     Inl (Error ''Invalid date format. Use YYYY-MM-DD or valid date string'')"
  by (simp add: calculate_def validateInputs_def sample_params_def sample_ext_def
      sample_parse_def validateCoordinates_def validateTimezone_def js_gt_def Let_def)

lemma sample_valid_date_returns:
  assumes "s = ''2024-02-18'' \<or> s = ''2024-02-20''"
  shows "\<exists>r. calculate sample_ext cfg (sample_params\<lparr>p_date := JString s\<rparr>) = Inr r"
proof -
  have v: "validateInputs sample_ext (sample_params\<lparr>p_date := JString s\<rparr>) = Inr ()"
    using assms
    by (auto simp add: validateInputs_def sample_params_def sample_ext_def sample_parse_def
        validateCoordinates_def validateTimezone_def js_gt_def)
  have "\<exists>pd. parseDateInput sample_ext (p_date (sample_params\<lparr>p_date := JString s\<rparr>)) = Inr pd"
    using assms
    by (auto simp add: parseDateInput_def sample_params_def sample_ext_def sample_parse_def)
  then obtain pd where
    "parseDateInput sample_ext (p_date (sample_params\<lparr>p_date := JString s\<rparr>)) = Inr pd" ..
  from calculate_returns [OF v this, of cfg]
  obtain r where "calculate sample_ext cfg (sample_params\<lparr>p_date := JString s\<rparr>) = Inr r"
    by auto
  then show ?thesis ..
qed

text \<open>
  C6. For every array of dates \<open>calculateBatch\<close> returns, without throwing, an array of
  the same length whose element at each index depends on the date at that index alone:
  the full result of \<open>calculate\<close> for that date, or, when \<open>calculate\<close> throws for it,
  the date together with the message of the error.
\<close>

theorem calculateBatch_isolates_items:
  "\<exists>rs. calculateBatch ext cfg baseParams (JArray dates) = Inr rs
        \<and> length rs = length dates
        \<and> (\<forall>i < length dates.
              rs ! i =
                (case calculate ext cfg (baseParams\<lparr>p_date := dates ! i\<rparr>) of
                   Inr r \<Rightarrow> ItemResult r
                 | Inl e \<Rightarrow> ItemError (dates ! i) (error_message e)))"
  by (simp add: calculateBatch_def MuhuratCalculator_calculateBatch_def)

text \<open>Three dates, the middle one not a date: three elements, the middle one an error
  and the outer two results.\<close>

theorem calculateBatch_isolates_items_witness:
  "\<exists>rs r0 r2.
     calculateBatch sample_ext (sample_config ''standard'') sample_params
       (JArray [JString ''2024-02-18'', JString ''invalid-date'', JString ''2024-02-20'']) = Inr rs
     \<and> length rs = 3
     \<and> rs ! 0 = ItemResult r0
     \<and> rs ! 1 = ItemError (JString ''invalid-date'')
                  ''Invalid date format. Use YYYY-MM-DD or valid date string''
     \<and> rs ! 2 = ItemResult r2"
proof -
  let ?ds = "[JString ''2024-02-18'', JString ''invalid-date'', JString ''2024-02-20'']"
  let ?cfg = "sample_config ''standard''"
  obtain rs where rs: "calculateBatch sample_ext ?cfg sample_params (JArray ?ds) = Inr rs"
      "length rs = length ?ds"
      "\<forall>i < length ?ds. rs ! i =
         (case calculate sample_ext ?cfg (sample_params\<lparr>p_date := ?ds ! i\<rparr>) of
            Inr r \<Rightarrow> ItemResult r
          | Inl e \<Rightarrow> ItemError (?ds ! i) (error_message e))"
    using calculateBatch_isolates_items [of sample_ext ?cfg sample_params ?ds] by blast
  obtain r0 where r0:
    "calculate sample_ext ?cfg (sample_params\<lparr>p_date := JString ''2024-02-18''\<rparr>) = Inr r0"
    using sample_valid_date_returns [of "''2024-02-18''" ?cfg] by auto
  obtain r2 where r2:
    "calculate sample_ext ?cfg (sample_params\<lparr>p_date := JString ''2024-02-20''\<rparr>) = Inr r2"
    using sample_valid_date_returns [of "''2024-02-20''" ?cfg] by auto
  have "rs ! 0 = ItemResult r0"
    using rs(3) r0 by (simp add: nth_Cons')
  moreover have "rs ! 1 = ItemError (JString ''invalid-date'')
                  ''Invalid date format. Use YYYY-MM-DD or valid date string''"
    using rs(3) sample_invalid_date_throws [of ?cfg] by (simp add: nth_Cons')
  moreover have "rs ! 2 = ItemResult r2"
    using rs(3) r2 by (simp add: nth_Cons')
  ultimately show ?thesis using rs(1,2) by auto
qed

end
